theory Spec2Isabelle
  imports Main "HOL-Library.AList"
begin

section \<open>The world the program runs in\<close>

text \<open>
  \<^verbatim>\<open>VectorStore.py\<close> moves a persisted vector index between the local directory
  \<^verbatim>\<open>./vectorStore/{id}\<close> and the objects \<^verbatim>\<open>vectorstores/{id}/...\<close> of an S3 bucket;
  \<^verbatim>\<open>ChatBot.py\<close> wraps such an index in a conversational chain. Both are sequences of
  calls into the file system, boto3, Chroma and LangChain. The model makes that outside
  world an explicit state, passed through every function, and every exception a value.

  Conventions of the model:
  \<^item> a product id is one plain directory name (no separator, no shell metacharacter), so
    that \<^verbatim>\<open>./vectorStore/{id}\<close> is one entry of \<^verbatim>\<open>./vectorStore\<close> and the shell
    command \<^verbatim>\<open>rm -rf ./vectorStore/{id}\<close> removes exactly that entry;
  \<^item> \<^verbatim>\<open>debug(...)\<close> only prints, and is left out;
  \<^item> a directory is the list of its entries in the order \<^verbatim>\<open>os.listdir\<close> returns them;
  \<^item> a listing of the bucket returns every key under the prefix (the index has fewer
    objects than one page of \<^verbatim>\<open>list_objects\<close>);
  \<^item> the calls on an opened Chroma handle neither raise nor change what the model holds.
\<close>

datatype err =
  NotInitialized | RemoteError | PoolNotFound | VectorStoreNotLoaded | OSError | LoaderError
  | AttributeError | NameError | TypeError | KeyError

datatype node = File string | Dir "(string \<times> node) list"

datatype document = Document string "(string \<times> string) list"

datatype chroma = Chroma string

text \<open>
  The calls that reach the bucket, and what a run leaves behind: every remote call with
  its outcome (\<open>True\<close> when it returned, \<open>False\<close> when it raised) and every
  \<^verbatim>\<open>sleep\<close>.
\<close>

datatype call =
  ListObjects string | DeleteObjects "string list" | UploadFile string | DownloadFile string

datatype event = Remote call bool | Sleep nat

text \<open>
  The module globals \<^verbatim>\<open>__S3\<close>, \<^verbatim>\<open>__bucket\<close>, \<^verbatim>\<open>__bucket_name\<close>; the buckets of the
  object store, each a list of (key, body); the two local directories; the behaviour of
  the network (\<open>fails w n c\<close>: the remote call \<open>c\<close>, made when \<open>n\<close> events have
  happened, raises); the trace of events; and the libraries the program delegates to:
  \<open>chroma_persist\<close> stands for chunking, metadata filtering and
  \<^verbatim>\<open>Chroma.from_documents(..., persist_directory=path)\<close> (given the documents and what is
  at the path, the directory's entries afterwards, or an exception), \<open>chroma_loads\<close> for
  whether \<^verbatim>\<open>Chroma(persist_directory=path)\<close> opens what is at the path, and the three
  loaders for the document parsers.
\<close>

record world =
  g_S3 :: bool
  g_bucket :: "string option"
  g_bucket_name :: "string option"
  remote :: "string \<Rightarrow> (string \<times> string) list"
  vectorStore :: "(string \<times> node) list"
  productKnowledgePool :: "(string \<times> node) list"
  fails :: "nat \<Rightarrow> call \<Rightarrow> bool"
  trace :: "event list"
  chroma_persist :: "document list \<Rightarrow> node option \<Rightarrow> err + (string \<times> node) list"
  chroma_loads :: "node \<Rightarrow> bool"
  Docx2txtLoader :: "node \<Rightarrow> err + document list"
  UnstructuredExcelLoader :: "node \<Rightarrow> err + document list"
  PyPDFLoader :: "node \<Rightarrow> err + document list"

subsection \<open>Strings and paths\<close>

text \<open>\<^verbatim>\<open>str.split(sep)\<close>, \<^verbatim>\<open>sep.join(parts)\<close>, \<^verbatim>\<open>str.startswith\<close> and \<^verbatim>\<open>str.rfind\<close>.\<close>

fun py_split :: "char \<Rightarrow> string \<Rightarrow> string list" where
  "py_split c [] = [[]]"
| "py_split c (x # xs) =
     (if x = c then [] # py_split c xs
      else (case py_split c xs of [] \<Rightarrow> [[x]] | p # ps \<Rightarrow> (x # p) # ps))"

fun py_join :: "string \<Rightarrow> string list \<Rightarrow> string" where
  "py_join sep [] = []"
| "py_join sep [p] = p"
| "py_join sep (p # q # ps) = p @ sep @ py_join sep (q # ps)"

fun startswith :: "string \<Rightarrow> string \<Rightarrow> bool" where
  "startswith s [] = True"
| "startswith [] (p # ps) = False"
| "startswith (x # xs) (p # ps) = (x = p \<and> startswith xs ps)"

definition rfind :: "char \<Rightarrow> string \<Rightarrow> int" where
  "rfind c s =
     (if c \<in> set s then int (length s) - 1 - int (length (takeWhile (\<lambda>x. x \<noteq> c) (rev s)))
      else - 1)"

text \<open>
  \<^verbatim>\<open>os.path.splitext(p)[1]\<close>: the extension starts at the last dot, unless that dot
  comes before the last separator or only dots stand between the separator and it.
\<close>

definition splitext_ext :: "string \<Rightarrow> string" where
  "splitext_ext p =
     (let sepIndex = rfind (CHR ''/'') p; dotIndex = rfind (CHR ''.'') p
      in if dotIndex > sepIndex \<and>
            list_ex (\<lambda>ch. ch \<noteq> CHR ''.'')
              (take (nat (dotIndex - (sepIndex + 1))) (drop (nat (sepIndex + 1)) p))
         then drop (nat dotIndex) p else [])"

text \<open>The components of a relative path string: empty components name nothing.\<close>

definition components :: "string \<Rightarrow> string list" where
  "components p = filter (\<lambda>c. c \<noteq> []) (py_split (CHR ''/'') p)"

text \<open>Python's truth value of an optional string: \<^verbatim>\<open>None\<close> and \<^verbatim>\<open>""\<close> are false.\<close>

fun truthy :: "string option \<Rightarrow> bool" where
  "truthy None = False"
| "truthy (Some s) = (s \<noteq> [])"

subsection \<open>The local directory tree\<close>

fun lookup_path :: "string list \<Rightarrow> node \<Rightarrow> node option" where
  "lookup_path [] nd = Some nd"
| "lookup_path (c # cs) (File body) = None"
| "lookup_path (c # cs) (Dir es) =
     (case map_of es c of None \<Rightarrow> None | Some nd \<Rightarrow> lookup_path cs nd)"

text \<open>\<^verbatim>\<open>os.path.isdir\<close>, \<^verbatim>\<open>os.listdir\<close> (which raises on what is no directory) and
  reading a file, on paths below \<^verbatim>\<open>./vectorStore\<close>.\<close>

definition isdir :: "string list \<Rightarrow> world \<Rightarrow> bool" where
  "isdir path w =
     (case lookup_path path (Dir (vectorStore w)) of Some (Dir es) \<Rightarrow> True | _ \<Rightarrow> False)"

definition listdir :: "string list \<Rightarrow> world \<Rightarrow> err + string list" where
  "listdir path w =
     (case lookup_path path (Dir (vectorStore w)) of
        Some (Dir es) \<Rightarrow> Inr (map fst es)
      | _ \<Rightarrow> Inl OSError)"

definition read_file :: "string list \<Rightarrow> world \<Rightarrow> string option" where
  "read_file path w =
     (case lookup_path path (Dir (vectorStore w)) of Some (File body) \<Rightarrow> Some body | _ \<Rightarrow> None)"

text \<open>
  \<^verbatim>\<open>mkdir -p\<close> run through \<^verbatim>\<open>os.system\<close>: it creates the missing directories, and
  when a file is in the way it fails without raising and changes nothing.
\<close>

fun mkdir_p :: "string list \<Rightarrow> (string \<times> node) list \<Rightarrow> (string \<times> node) list" where
  "mkdir_p [] es = es"
| "mkdir_p (c # cs) es =
     (case map_of es c of
        None \<Rightarrow> es @ [(c, Dir (mkdir_p cs []))]
      | Some (File body) \<Rightarrow> es
      | Some (Dir sub) \<Rightarrow> AList.update c (Dir (mkdir_p cs sub)) es)"

text \<open>Writing a file: \<open>None\<close> when the target is a directory or its parent is missing.\<close>

fun write_file :: "string list \<Rightarrow> string \<Rightarrow> (string \<times> node) list \<Rightarrow> (string \<times> node) list option" where
  "write_file [] body es = None"
| "write_file [n] body es =
     (case map_of es n of
        Some (Dir sub) \<Rightarrow> None
      | _ \<Rightarrow> Some (AList.update n (File body) es))"
| "write_file (d # n # cs) body es =
     (case map_of es d of
        Some (Dir sub) \<Rightarrow>
          (case write_file (n # cs) body sub of
             None \<Rightarrow> None
           | Some sub' \<Rightarrow> Some (AList.update d (Dir sub') es))
      | _ \<Rightarrow> None)"

subsection \<open>The remote calls\<close>

text \<open>
  Each call is recorded in the trace with its outcome. A call raises when the network
  fails it, when the handle it is made on is \<^verbatim>\<open>None\<close>, and for a transfer when the
  source is missing or the target cannot be written.
\<close>

definition record_call :: "call \<Rightarrow> bool \<Rightarrow> world \<Rightarrow> world" where
  "record_call c ok w = w\<lparr>trace := trace w @ [Remote c ok]\<rparr>"

definition network_ok :: "call \<Rightarrow> world \<Rightarrow> bool" where
  "network_ok c w = (\<not> fails w (length (trace w)) c)"

definition sleep :: "nat \<Rightarrow> world \<Rightarrow> world" where
  "sleep n w = w\<lparr>trace := trace w @ [Sleep n]\<rparr>"

definition list_objects :: "string option \<Rightarrow> string \<Rightarrow> world \<Rightarrow> (err + string list) \<times> world" where
  "list_objects Bucket Prefix w =
     (case Bucket of
        Some b \<Rightarrow>
          if network_ok (ListObjects Prefix) w
          then (Inr (filter (\<lambda>k. startswith k Prefix) (map fst (remote w b))),
                record_call (ListObjects Prefix) True w)
          else (Inl RemoteError, record_call (ListObjects Prefix) False w)
      | None \<Rightarrow> (Inl RemoteError, record_call (ListObjects Prefix) False w))"

definition delete_objects :: "string option \<Rightarrow> string list \<Rightarrow> world \<Rightarrow> (err + unit) \<times> world" where
  "delete_objects bkt keys w =
     (case bkt of
        Some b \<Rightarrow>
          if network_ok (DeleteObjects keys) w
          then (Inr (),
                record_call (DeleteObjects keys) True
                  (w\<lparr>remote := (remote w)(b := filter (\<lambda>(k, body). k \<notin> set keys) (remote w b))\<rparr>))
          else (Inl RemoteError, record_call (DeleteObjects keys) False w)
      | None \<Rightarrow> (Inl AttributeError, record_call (DeleteObjects keys) False w))"

definition upload_file :: "string option \<Rightarrow> string list \<Rightarrow> string \<Rightarrow> world \<Rightarrow> (err + unit) \<times> world" where
  "upload_file bkt file_name key w =
     (case (bkt, read_file file_name w) of
        (Some b, Some body) \<Rightarrow>
          if network_ok (UploadFile key) w
          then (Inr (),
                record_call (UploadFile key) True
                  (w\<lparr>remote := (remote w)(b := AList.update key body (remote w b))\<rparr>))
          else (Inl RemoteError, record_call (UploadFile key) False w)
      | (Some b, None) \<Rightarrow> (Inl OSError, record_call (UploadFile key) False w)
      | (None, _) \<Rightarrow> (Inl AttributeError, record_call (UploadFile key) False w))"

definition download_file :: "string option \<Rightarrow> string \<Rightarrow> string list \<Rightarrow> world \<Rightarrow> (err + unit) \<times> world" where
  "download_file bkt key file_name w =
     (case bkt of
        Some b \<Rightarrow>
          (case (map_of (remote w b) key, network_ok (DownloadFile key) w) of
             (Some body, True) \<Rightarrow>
               (case write_file file_name body (vectorStore w) of
                  Some es \<Rightarrow> (Inr (), record_call (DownloadFile key) True (w\<lparr>vectorStore := es\<rparr>))
                | None \<Rightarrow> (Inl OSError, record_call (DownloadFile key) False w))
           | _ \<Rightarrow> (Inl RemoteError, record_call (DownloadFile key) False w))
      | None \<Rightarrow> (Inl AttributeError, record_call (DownloadFile key) False w))"

section \<open>VectorStore.py\<close>

subsection \<open>Initialisation\<close>

definition initS3Storage :: "string \<Rightarrow> world \<Rightarrow> world" where
  "initS3Storage name w = w\<lparr>g_S3 := True, g_bucket := Some name, g_bucket_name := Some name\<rparr>"

definition checkS3init :: "world \<Rightarrow> err + unit" where
  "checkS3init w = (if g_bucket w = None \<or> \<not> g_S3 w then Inl NotInitialized else Inr ())"

definition prefix_of :: "string \<Rightarrow> string" where
  "prefix_of ident = ''vectorstores/'' @ ident"

subsection \<open>The local store\<close>

definition getLocalVectorStoreFor :: "string \<Rightarrow> world \<Rightarrow> chroma option" where
  "getLocalVectorStoreFor ident w =
     (case map_of (vectorStore w) ident of
        None \<Rightarrow> None
      | Some nd \<Rightarrow> if chroma_loads w nd then Some (Chroma ident) else None)"

text \<open>
  \<^verbatim>\<open>deleteLocalVectorStore\<close>: the two calls on the opened handle release Chroma's own
  state and leave nothing that survives the \<^verbatim>\<open>rm -rf\<close> after them; \<^verbatim>\<open>os.system\<close> does
  not raise, so the function returns \<^verbatim>\<open>True\<close>.
\<close>

definition deleteLocalVectorStore :: "string \<Rightarrow> world \<Rightarrow> bool \<times> world" where
  "deleteLocalVectorStore ident w =
     (let vectorStore_handle = getLocalVectorStoreFor ident w;
          w1 = (case vectorStore_handle of None \<Rightarrow> w | Some h \<Rightarrow> w)
      in (True, w1\<lparr>vectorStore := AList.delete ident (vectorStore w1)\<rparr>))"

subsection \<open>Existence and deletion of the remote index\<close>

text \<open>
  \<^verbatim>\<open>for retry in range(3): try: ... except Exception: sleep(3)\<close> is a recursion on the
  attempts left; an attempt that raises is followed by the sleep, the last one too.
\<close>

fun check_attempts :: "nat \<Rightarrow> string \<Rightarrow> world \<Rightarrow> bool \<times> world" where
  "check_attempts 0 ident w = (False, w)"
| "check_attempts (Suc n) ident w =
     (case list_objects (g_bucket_name w) (prefix_of ident) w of
        (Inl e, w1) \<Rightarrow> check_attempts n ident (sleep 3 w1)
      | (Inr Contents, w1) \<Rightarrow> if Contents = [] then (False, w1) else (True, w1))"

definition checkS3VectorStoreFor :: "string \<Rightarrow> world \<Rightarrow> (err + bool) \<times> world" where
  "checkS3VectorStoreFor ident w =
     (case checkS3init w of
        Inl e \<Rightarrow> (Inl e, w)
      | Inr u \<Rightarrow> (case check_attempts 3 ident w of (b, w1) \<Rightarrow> (Inr b, w1)))"

text \<open>The inner loop sends the keys collected so far at every step.\<close>

fun delete_each :: "string list \<Rightarrow> string list \<Rightarrow> world \<Rightarrow> (err + unit) \<times> world" where
  "delete_each keys [] w = (Inr (), w)"
| "delete_each keys (k # Contents) w =
     (case delete_objects (g_bucket w) (keys @ [k]) w of
        (Inl e, w1) \<Rightarrow> (Inl e, w1)
      | (Inr u, w1) \<Rightarrow> delete_each (keys @ [k]) Contents w1)"

fun delete_attempts :: "nat \<Rightarrow> string \<Rightarrow> world \<Rightarrow> bool \<times> world" where
  "delete_attempts 0 ident w = (False, w)"
| "delete_attempts (Suc n) ident w =
     (case list_objects (g_bucket_name w) (prefix_of ident) w of
        (Inl e, w1) \<Rightarrow> delete_attempts n ident (sleep 3 w1)
      | (Inr Contents, w1) \<Rightarrow>
          if Contents = [] then (True, w1)
          else (case delete_each [] Contents w1 of
                  (Inl e, w2) \<Rightarrow> delete_attempts n ident (sleep 3 w2)
                | (Inr u, w2) \<Rightarrow> (True, w2)))"

definition deleteS3VectorstoreFor :: "string \<Rightarrow> world \<Rightarrow> (err + bool) \<times> world" where
  "deleteS3VectorstoreFor ident w =
     (case checkS3init w of
        Inl e \<Rightarrow> (Inl e, w)
      | Inr u \<Rightarrow> (case delete_attempts 3 ident w of (b, w1) \<Rightarrow> (Inr b, w1)))"

subsection \<open>Download\<close>

fun download_each :: "string \<Rightarrow> string list \<Rightarrow> world \<Rightarrow> (err + unit) \<times> world" where
  "download_each ident [] w = (Inr (), w)"
| "download_each ident (key # Contents) w =
     (let parts = py_split (CHR ''/'') key;
          file_name = last parts;
          father = py_join ''/'' (butlast (drop 2 parts));
          w1 = (if father \<noteq> []
                then w\<lparr>vectorStore := mkdir_p (ident # components father) (vectorStore w)\<rparr>
                else w\<lparr>vectorStore := mkdir_p [ident] (vectorStore w)\<rparr>)
      in case download_file (g_bucket w1) key
                (ident # components father @ components file_name) w1 of
           (Inl e, w2) \<Rightarrow> (Inl e, w2)
         | (Inr u, w2) \<Rightarrow> download_each ident Contents w2)"

fun download_attempts :: "nat \<Rightarrow> string \<Rightarrow> world \<Rightarrow> bool \<times> world" where
  "download_attempts 0 ident w = (False, snd (deleteLocalVectorStore ident w))"
| "download_attempts (Suc n) ident w =
     (case list_objects (g_bucket_name w) (prefix_of ident) w of
        (Inl e, w1) \<Rightarrow> download_attempts n ident (sleep 3 w1)
      | (Inr Contents, w1) \<Rightarrow>
          if Contents = [] then (False, w1)
          else (case download_each ident Contents w1 of
                  (Inl e, w2) \<Rightarrow> download_attempts n ident (sleep 3 w2)
                | (Inr u, w2) \<Rightarrow> (True, w2)))"

definition downloadS3VectorstoreFor :: "string \<Rightarrow> world \<Rightarrow> (err + bool) \<times> world" where
  "downloadS3VectorstoreFor ident w =
     (case checkS3init w of
        Inl e \<Rightarrow> (Inl e, w)
      | Inr u \<Rightarrow>
          (case download_attempts 3 ident (snd (deleteLocalVectorStore ident w)) of
             (b, w1) \<Rightarrow> (Inr b, w1)))"

definition getS3VectorStoreFor :: "string \<Rightarrow> world \<Rightarrow> (err + chroma option) \<times> world" where
  "getS3VectorStoreFor ident w =
     (case downloadS3VectorstoreFor ident w of
        (Inl e, w1) \<Rightarrow> (Inl e, w1)
      | (Inr True, w1) \<Rightarrow> (Inr (getLocalVectorStoreFor ident w1), w1)
      | (Inr False, w1) \<Rightarrow> (Inr None, w1))"

subsection \<open>Upload\<close>

fun upload_attempts :: "nat \<Rightarrow> string list \<Rightarrow> string \<Rightarrow> world \<Rightarrow> bool \<times> world" where
  "upload_attempts 0 file_name path w = (False, w)"
| "upload_attempts (Suc n) file_name path w =
     (case upload_file (g_bucket w) file_name path w of
        (Inl e, w1) \<Rightarrow> upload_attempts n file_name path (sleep 3 w1)
      | (Inr u, w1) \<Rightarrow> (True, w1))"

text \<open>The object key and the local file of \<^verbatim>\<open>__upload_file(id, file_name, father)\<close>.\<close>

definition key_of :: "string \<Rightarrow> string option \<Rightarrow> string \<Rightarrow> string" where
  "key_of ident father file_name =
     (if truthy father
      then ''vectorstores/'' @ ident @ ''/'' @ the father @ ''/'' @ file_name
      else ''vectorstores/'' @ ident @ ''/'' @ file_name)"

definition local_of :: "string \<Rightarrow> string option \<Rightarrow> string \<Rightarrow> string list" where
  "local_of ident father file_name =
     (if truthy father
      then ident # components (the father @ ''/'' @ file_name)
      else ident # components file_name)"

definition upload_file_for :: "string \<Rightarrow> string \<Rightarrow> string option \<Rightarrow> world \<Rightarrow> (err + bool) \<times> world" where
  "upload_file_for ident file_name father w =
     (case checkS3init w of
        Inl e \<Rightarrow> (Inl e, w)
      | Inr u \<Rightarrow>
          (case upload_attempts 3 (local_of ident father file_name) (key_of ident father file_name) w of
             (b, w1) \<Rightarrow> (Inr b, w1)))"

text \<open>
  \<^verbatim>\<open>__uploadS3VectorstoreFor(id, path, father)\<close> calls itself on every subdirectory.
  The model follows the calls with fuel: one unit for each level of nesting, \<open>None\<close>
  when it runs out. \<^verbatim>\<open>os.listdir\<close> is read once, before the loop;
  \<^verbatim>\<open>os.path.isdir\<close> is read at each step, from the directory as it is then. The result
  of the call on a subdirectory is dropped, as in the source.
\<close>

fun uploadS3VectorstoreFor ::
    "nat \<Rightarrow> string \<Rightarrow> string list option \<Rightarrow> string option \<Rightarrow> world \<Rightarrow> ((err + bool) \<times> world) option"
  and upload_loop ::
    "nat \<Rightarrow> string \<Rightarrow> string list \<Rightarrow> string option \<Rightarrow> string list \<Rightarrow> world \<Rightarrow> ((err + bool) \<times> world) option"
where
  "uploadS3VectorstoreFor 0 ident path father w = None"
| "uploadS3VectorstoreFor (Suc n) ident path father w =
     (let path1 = (case path of None \<Rightarrow> [ident] | Some p \<Rightarrow> p)
      in case deleteS3VectorstoreFor ident w of
           (Inl e, w1) \<Rightarrow> Some (Inl e, w1)
         | (Inr b, w1) \<Rightarrow>
             (case listdir path1 w1 of
                Inl e \<Rightarrow> Some (Inl e, w1)
              | Inr list_of_files \<Rightarrow> upload_loop n ident path1 father list_of_files w1))"
| "upload_loop n ident path father [] w = Some (Inr True, w)"
| "upload_loop n ident path father (file_name # rest) w =
     (let file_path = path @ [file_name]
      in if isdir file_path w
         then (let fatherPath = (if truthy father then the father @ ''/'' @ file_name else file_name)
               in case uploadS3VectorstoreFor n ident (Some file_path) (Some fatherPath) w of
                    None \<Rightarrow> None
                  | Some (Inl e, w1) \<Rightarrow> Some (Inl e, w1)
                  | Some (Inr b, w1) \<Rightarrow> upload_loop n ident path father rest w1)
         else (case upload_file_for ident file_name father w of
                 (Inl e, w1) \<Rightarrow> Some (Inl e, w1)
               | (Inr True, w1) \<Rightarrow> upload_loop n ident path father rest w1
               | (Inr False, w1) \<Rightarrow>
                   (case deleteS3VectorstoreFor ident w1 of
                      (Inl e, w2) \<Rightarrow> Some (Inl e, w2)
                    | (Inr b, w2) \<Rightarrow> Some (Inr False, snd (deleteLocalVectorStore ident w2)))))"

subsection \<open>Loading the documents\<close>

text \<open>
  \<^verbatim>\<open>__load_document\<close> reads \<^verbatim>\<open>./productKnowledgePool/{id}\<close> and changes nothing. The
  loop goes over the entries of the folder in listing order; a loader that raises ends
  it with that exception, and so does \<^verbatim>\<open>open\<close> on what is no regular file.
\<close>

fun load_files :: "world \<Rightarrow> (string \<times> node) list \<Rightarrow> document list \<Rightarrow> err + document list" where
  "load_files w [] listOfDocuments = Inr listOfDocuments"
| "load_files w ((file, nd) # listOfFiles) listOfDocuments =
     (let file_type = splitext_ext file
      in if file_type = ''.docx'' \<or> file_type = ''.doc'' then
           (case Docx2txtLoader w nd of
              Inl e \<Rightarrow> Inl e
            | Inr doc \<Rightarrow> load_files w listOfFiles (listOfDocuments @ doc))
         else if file_type = ''.xlsx'' \<or> file_type = ''.xls'' then
           (case UnstructuredExcelLoader w nd of
              Inl e \<Rightarrow> Inl e
            | Inr doc \<Rightarrow> load_files w listOfFiles (listOfDocuments @ doc))
         else if file_type = ''.pdf'' then
           (case PyPDFLoader w nd of
              Inl e \<Rightarrow> Inl e
            | Inr doc \<Rightarrow> load_files w listOfFiles (listOfDocuments @ doc))
         else if file_type = ''.txt'' then
           (case nd of
              File doc \<Rightarrow> load_files w listOfFiles (listOfDocuments @ [Document doc []])
            | Dir es \<Rightarrow> Inl OSError)
         else load_files w listOfFiles listOfDocuments)"

definition load_document :: "string \<Rightarrow> world \<Rightarrow> err + document list" where
  "load_document ident w =
     (case map_of (productKnowledgePool w) ident of
        None \<Rightarrow> Inl PoolNotFound
      | Some (File body) \<Rightarrow> Inl OSError
      | Some (Dir listOfFiles) \<Rightarrow> load_files w listOfFiles [])"

subsection \<open>Building the index\<close>

definition buildVectorStoreFromDocuments ::
    "document list \<Rightarrow> string \<Rightarrow> world \<Rightarrow> (err + chroma) \<times> world" where
  "buildVectorStoreFromDocuments listOfDocuments ident w =
     (case chroma_persist w listOfDocuments (map_of (vectorStore w) ident) of
        Inl e \<Rightarrow> (Inl e, w)
      | Inr es \<Rightarrow> (Inr (Chroma ident), w\<lparr>vectorStore := AList.update ident (Dir es) (vectorStore w)\<rparr>))"

definition buildLocalVectorStoreFor :: "string \<Rightarrow> world \<Rightarrow> (err + chroma) \<times> world" where
  "buildLocalVectorStoreFor ident w =
     (case load_document ident w of
        Inl e \<Rightarrow> (Inl e, w)
      | Inr documentList \<Rightarrow> buildVectorStoreFromDocuments documentList ident w)"

definition buildS3VectorStoreFor :: "nat \<Rightarrow> string \<Rightarrow> world \<Rightarrow> ((err + bool) \<times> world) option" where
  "buildS3VectorStoreFor fuel ident w =
     (case buildLocalVectorStoreFor ident w of
        (Inl e, w1) \<Rightarrow> Some (Inl e, w1)
      | (Inr vs, w1) \<Rightarrow>
          (case uploadS3VectorstoreFor fuel ident None None w1 of
             None \<Rightarrow> None
           | Some (Inl e, w2) \<Rightarrow> Some (Inl e, w2)
           | Some (Inr True, w2) \<Rightarrow> Some (Inr True, snd (deleteLocalVectorStore ident w2))
           | Some (Inr False, w2) \<Rightarrow> Some (Inr False, snd (deleteLocalVectorStore ident w2))))"

subsection \<open>The names of the module\<close>

text \<open>
  Every name \<^verbatim>\<open>VectorStore.py\<close> binds at module level: its imports, its globals and
  its functions. \<^verbatim>\<open>VectorStore.<name>\<close> raises \<^verbatim>\<open>AttributeError\<close> for any other name.
\<close>

definition VectorStore_names :: "string list" where
  "VectorStore_names =
     [''List'', ''os'', ''Docx2txtLoader'', ''UnstructuredExcelLoader'', ''PyPDFLoader'',
      ''Document'', ''RecursiveCharacterTextSplitter'', ''Chroma'', ''OpenAIEmbeddings'',
      ''filter_complex_metadata'', ''boto3'', ''sleep'',
      ''debugMode'', ''__bucket'', ''__S3'', ''__bucket_name'',
      ''debug'', ''initS3Storage'', ''turnOnDebug'', ''buildS3VectorStoreFor'',
      ''getS3VectorStoreFor'', ''checkS3VectorStoreFor'', ''deleteS3VectorstoreFor'',
      ''__checkS3init'', ''__buildLocalVectorStoreFor'', ''__getLocalVectorStoreFor'',
      ''deleteLocalVectorStore'', ''__downloadS3VectorstoreFor'', ''__upload_file'',
      ''__uploadS3VectorstoreFor'', ''__buildVectorStoreFromDocuments'', ''__load_document'']"

text \<open>
  The public functions of the module, each applied to one string. A call of any other
  bound name with one string is not modelled.
\<close>

datatype retval = RNone | RBool bool | RChroma "chroma option"

definition VectorStore_getattr ::
    "nat \<Rightarrow> string \<Rightarrow> (string \<Rightarrow> world \<Rightarrow> ((err + retval) \<times> world) option) option" where
  "VectorStore_getattr fuel name =
     map_of
       [(''initS3Storage'', \<lambda>a w. Some (Inr RNone, initS3Storage a w)),
        (''buildS3VectorStoreFor'',
           \<lambda>a w. map_option (\<lambda>(r, w1). (map_sum id RBool r, w1)) (buildS3VectorStoreFor fuel a w)),
        (''getS3VectorStoreFor'',
           \<lambda>a w. Some (case getS3VectorStoreFor a w of (r, w1) \<Rightarrow> (map_sum id RChroma r, w1))),
        (''checkS3VectorStoreFor'',
           \<lambda>a w. Some (case checkS3VectorStoreFor a w of (r, w1) \<Rightarrow> (map_sum id RBool r, w1))),
        (''deleteS3VectorstoreFor'',
           \<lambda>a w. Some (case deleteS3VectorstoreFor a w of (r, w1) \<Rightarrow> (map_sum id RBool r, w1))),
        (''deleteLocalVectorStore'',
           \<lambda>a w. Some (case deleteLocalVectorStore a w of (b, w1) \<Rightarrow> (Inr (RBool b), w1)))]
       name"

section \<open>ChatBot.py\<close>

text \<open>
  A \<^verbatim>\<open>ChatBot\<close> holds its product id, its vector store and \<^verbatim>\<open>self.history\<close>, which is
  \<^verbatim>\<open>None\<close> or a reference to a \<^verbatim>\<open>ChatMessageHistory\<close> object. The objects live in a
  heap, addressed by their position, so that "the same object" is "the same reference".
\<close>

datatype message = HumanMessage string | AIMessage string

record ChatBot =
  bot_id :: string
  bot_vectorStore :: chroma
  history :: "nat option"

type_synonym heap = "message list list"

text \<open>
  Inside the body of a class, Python rewrites every identifier that starts with two
  underscores and does not end with two: \<^verbatim>\<open>__x\<close> in class \<^verbatim>\<open>ChatBot\<close> is compiled as
  \<^verbatim>\<open>_ChatBot__x\<close>, whether it names an attribute or a global.
\<close>

definition mangle :: "string \<Rightarrow> string \<Rightarrow> string" where
  "mangle cls name =
     (if take 2 name = ''__'' \<and> take 2 (rev name) \<noteq> ''__''
      then CHR ''_'' # dropWhile (\<lambda>c. c = CHR ''_'') cls @ name
      else name)"

text \<open>Every name \<^verbatim>\<open>ChatBot.py\<close> binds at module level.\<close>

definition ChatBot_names :: "string list" where
  "ChatBot_names =
     [''ChatOpenAI'', ''VectorStore'', ''ChatPromptTemplate'', ''create_history_aware_retriever'',
      ''MessagesPlaceholder'', ''create_stuff_documents_chain'', ''create_retrieval_chain'',
      ''RunnableWithMessageHistory'', ''ChatMessageHistory'', ''llm'',
      ''__contextualize_q_system_prompt'', ''__system_prompt'', ''__contextualize_q_prompt'',
      ''__qa_prompt'', ''__question_answer_chain'', ''ChatBot'']"

text \<open>
  \<^verbatim>\<open>__init__\<close>: the vector store is fetched (from S3, or through the attribute
  \<^verbatim>\<open>VectorStore.__getLocalVectorStoreFor\<close> in debug mode), a missing store raises, and
  the chains are built from the retriever and the module globals
  \<^verbatim>\<open>__contextualize_q_prompt\<close> and \<^verbatim>\<open>__question_answer_chain\<close>. The library
  constructors hold no state of the model; what the model keeps of them is the lookup
  of the names they are given.
\<close>

definition ChatBot_init :: "string \<Rightarrow> bool \<Rightarrow> world \<Rightarrow> (err + ChatBot) \<times> world" where
  "ChatBot_init ident from_s3 w =
     (case (if from_s3 then getS3VectorStoreFor ident w
            else if mangle ''ChatBot'' ''__getLocalVectorStoreFor'' \<in> set VectorStore_names
                 then (Inr (getLocalVectorStoreFor ident w), w)
                 else (Inl AttributeError, w)) of
        (Inl e, w1) \<Rightarrow> (Inl e, w1)
      | (Inr None, w1) \<Rightarrow> (Inl VectorStoreNotLoaded, w1)
      | (Inr (Some vs), w1) \<Rightarrow>
          if mangle ''ChatBot'' ''__contextualize_q_prompt'' \<in> set ChatBot_names
          then if mangle ''ChatBot'' ''__question_answer_chain'' \<in> set ChatBot_names
               then (Inr \<lparr>bot_id = ident, bot_vectorStore = vs, history = None\<rparr>, w1)
               else (Inl NameError, w1)
          else (Inl NameError, w1))"

definition ChatMessageHistory :: "heap \<Rightarrow> nat \<times> heap" where
  "ChatMessageHistory h = (length h, h @ [[]])"

definition get_session_history :: "ChatBot \<Rightarrow> 'a \<Rightarrow> heap \<Rightarrow> nat \<times> ChatBot \<times> heap" where
  "get_session_history self session_id h =
     (case history self of
        None \<Rightarrow> (case ChatMessageHistory h of (r, h1) \<Rightarrow> (r, self\<lparr>history := Some r\<rparr>, h1))
      | Some r \<Rightarrow> (r, self, h))"

text \<open>
  \<^verbatim>\<open>__del__\<close> is \<^verbatim>\<open>VectorStore.deleteVectorStore(self.__id)\<close>: the attribute is looked up,
  then called. The interpreter drops an exception that leaves a finaliser, so destroying
  an instance keeps the world \<^verbatim>\<open>__del__\<close> leaves and nothing else.
\<close>

definition ChatBot_del :: "nat \<Rightarrow> ChatBot \<Rightarrow> world \<Rightarrow> ((err + retval) \<times> world) option" where
  "ChatBot_del fuel self w =
     (let name = mangle ''ChatBot'' ''deleteVectorStore''
      in if name \<in> set VectorStore_names
         then (case VectorStore_getattr fuel name of
                 Some f \<Rightarrow> f (bot_id self) w
               | None \<Rightarrow> Some (Inl TypeError, w))
         else Some (Inl AttributeError, w))"

definition destroy :: "nat \<Rightarrow> ChatBot \<Rightarrow> world \<Rightarrow> world option" where
  "destroy fuel self w = map_option snd (ChatBot_del fuel self w)"

text \<open>
  \<^verbatim>\<open>ask_question\<close> is \<^verbatim>\<open>self.__conversational_rag_chain.stream({...}, config=...)["answer"]\<close>.
  LangChain's \<^verbatim>\<open>stream\<close> is a generator function: the call runs nothing of the chain and
  returns a generator object, which yields the chunks (and lets the chain write the
  history) only when it is iterated. Subscripting follows Python: a dictionary is looked
  up, a generator or a string subscripted by a string raises \<^verbatim>\<open>TypeError\<close>.
\<close>

datatype pyobj = Generator string | Dict "(string \<times> pyobj) list" | Str string

definition conversational_rag_chain_stream :: "string \<Rightarrow> pyobj" where
  "conversational_rag_chain_stream input = Generator input"

fun py_getitem :: "pyobj \<Rightarrow> string \<Rightarrow> err + pyobj" where
  "py_getitem (Generator g) k = Inl TypeError"
| "py_getitem (Str s) k = Inl TypeError"
| "py_getitem (Dict d) k = (case map_of d k of None \<Rightarrow> Inl KeyError | Some v \<Rightarrow> Inr v)"

definition ask_question :: "ChatBot \<Rightarrow> string \<Rightarrow> heap \<Rightarrow> (err + pyobj) \<times> ChatBot \<times> heap" where
  "ask_question self question h =
     (py_getitem (conversational_rag_chain_stream question) ''answer'', self, h)"

section \<open>The vocabulary of the properties\<close>

subsection \<open>Traces\<close>




subsection \<open>The remote index of an id\<close>

text \<open>
  The keys a listing under the id's prefix returns: the objects of the remote index.
\<close>

definition remote_keys :: "string \<Rightarrow> world \<Rightarrow> string list" where
  "remote_keys ident w =
     (case g_bucket_name w of
        None \<Rightarrow> []
      | Some b \<Rightarrow> filter (\<lambda>k. startswith k (prefix_of ident)) (map fst (remote w b)))"

subsection \<open>Supported documents\<close>


subsection \<open>Directory trees and the states of an upload\<close>



text \<open>
  What no operation changes (the globals and the behaviour of the network); a world
  that is initialised on bucket \<open>b\<close>; a network on which listing and deleting never
  fail; and the two states an upload can be in, relative to the world \<open>v\<close> it started
  from: the local tree untouched, or the local directory of the id removed with no
  remote object left under its prefix.
\<close>

definition config :: "world \<Rightarrow> bool \<times> string option \<times> string option \<times> (nat \<Rightarrow> call \<Rightarrow> bool)" where
  "config w = (g_S3 w, g_bucket w, g_bucket_name w, fails w)"





section \<open>Example worlds\<close>

text \<open>
  An initialised world with an empty bucket \<^verbatim>\<open>b\<close>, a knowledge pool for product
  \<^verbatim>\<open>p\<close>, a network that never fails and a Chroma that persists an index of one file
  and one subdirectory; and variations of it.
\<close>

definition index_tree :: "(string \<times> node) list" where
  "index_tree = [(''chroma.sqlite3'', File ''db''), (''d'', Dir [(''f'', File ''x'')])]"

definition world0 :: world where
  "world0 =
     \<lparr>g_S3 = True, g_bucket = Some ''b'', g_bucket_name = Some ''b'',
      remote = (\<lambda>b. []), vectorStore = [],
      productKnowledgePool = [(''p'', Dir [(''a.txt'', File ''hello'')])],
      fails = (\<lambda>n c. False), trace = [],
      chroma_persist = (\<lambda>docs old. Inr index_tree),
      chroma_loads = (\<lambda>nd. True),
      Docx2txtLoader = (\<lambda>nd. Inr []),
      UnstructuredExcelLoader = (\<lambda>nd. Inr []),
      PyPDFLoader = (\<lambda>nd. Inr [])\<rparr>"

text \<open>Before \<^verbatim>\<open>initS3Storage\<close>.\<close>

definition uninitialised :: world where
  "uninitialised = world0\<lparr>g_S3 := False, g_bucket := None, g_bucket_name := None\<rparr>"

text \<open>Product \<^verbatim>\<open>p\<close> built: its index is in the bucket and on disk; and a bot for it.\<close>

definition built :: world where
  "built =
     world0\<lparr>remote := (\<lambda>b. [(''vectorstores/p/chroma.sqlite3'', ''db'')]),
            vectorStore := [(''p'', Dir [(''chroma.sqlite3'', File ''db'')])]\<rparr>"

definition bot_p :: ChatBot where
  "bot_p = \<lparr>bot_id = ''p'', bot_vectorStore = Chroma ''p'', history = None\<rparr>"

text \<open>Only product \<^verbatim>\<open>pq\<close> built, never product \<^verbatim>\<open>p\<close>.\<close>

definition neighbour :: world where
  "neighbour = world0\<lparr>remote := (\<lambda>b. [(''vectorstores/pq/chroma.sqlite3'', ''db'')])\<rparr>"







section \<open>Properties\<close>

subsection \<open>Evaluating a run\<close>

text \<open>The definitions a concrete run unfolds.\<close>

lemmas run_defs =
  buildS3VectorStoreFor_def buildLocalVectorStoreFor_def buildVectorStoreFromDocuments_def
  load_document_def splitext_ext_def rfind_def
  deleteS3VectorstoreFor_def checkS3VectorStoreFor_def checkS3init_def
  upload_file_for_def key_of_def local_of_def components_def prefix_of_def
  list_objects_def delete_objects_def upload_file_def
  network_ok_def record_call_def sleep_def listdir_def isdir_def read_file_def
  deleteLocalVectorStore_def getLocalVectorStoreFor_def
  numeral_3_eq_3 Let_def


subsection \<open>Destruction of a ChatBot\<close>

lemma mangled:
  "mangle ''ChatBot'' ''deleteVectorStore'' = ''deleteVectorStore''"
  "mangle ''ChatBot'' ''__getLocalVectorStoreFor'' = ''_ChatBot__getLocalVectorStoreFor''"
  "mangle ''ChatBot'' ''__contextualize_q_prompt'' = ''_ChatBot__contextualize_q_prompt''"
  "mangle ''ChatBot'' ''__question_answer_chain'' = ''_ChatBot__question_answer_chain''"
  by (simp_all add: mangle_def)

lemma deleteVectorStore_unbound: "''deleteVectorStore'' \<notin> set VectorStore_names"
  by (simp add: VectorStore_names_def)

lemma ChatBot_del_raises: "ChatBot_del fuel self w = Some (Inl AttributeError, w)"
  by (simp add: ChatBot_del_def mangled deleteVectorStore_unbound)

lemma destroy_changes_nothing: "destroy fuel self w = Some w"
  by (simp add: destroy_def ChatBot_del_raises)

text \<open>
  The constructor does not complete either: whatever the store, \<^verbatim>\<open>__init__\<close> raises.
  With an index at hand it is the \<^verbatim>\<open>NameError\<close> of the mangled global
  \<^verbatim>\<open>_ChatBot__contextualize_q_prompt\<close>. The finaliser runs on the instance all the same.
\<close>

lemma ChatBot_init_raises: "\<exists>e. fst (ChatBot_init ident from_s3 w) = Inl e"
  by (cases "getS3VectorStoreFor ident w")
     (auto simp: ChatBot_init_def mangled ChatBot_names_def VectorStore_names_def
       split: sum.splits option.splits)

text \<open>
  C1. Claimed: destroying a ChatBot deletes the remote and the local index of its id.
  The code looks up \<^verbatim>\<open>VectorStore.deleteVectorStore\<close>, which the module does not define:
  \<^verbatim>\<open>__del__\<close> raises \<^verbatim>\<open>AttributeError\<close> and the world is as before. For the bot of
  product \<^verbatim>\<open>p\<close>, with an index in the bucket and on disk, the remote index still
  exists after destruction and the local directory is still there.
\<close>

theorem C1_destroy_deletes_nothing:
  "ChatBot_del fuel bot_p built = Some (Inl AttributeError, built) \<and>
   destroy fuel bot_p built = Some built \<and>
   fst (checkS3VectorStoreFor ''p'' built) = Inr True \<and>
   map_of (vectorStore built) ''p'' = Some (Dir [(''chroma.sqlite3'', File ''db'')])"
  by (simp add: destroy_changes_nothing ChatBot_del_raises
      checkS3VectorStoreFor_def checkS3init_def built_def world0_def numeral_3_eq_3
      list_objects_def network_ok_def record_call_def prefix_of_def)

subsection \<open>Asking a question\<close>

text \<open>
  C2. Claimed: \<^verbatim>\<open>ask\<close> returns the stream of the answer's fragments and appends the turn
  to the history. The code subscripts the generator that \<^verbatim>\<open>stream\<close> returns with
  \<^verbatim>\<open>"answer"\<close>: for every bot and question it raises \<^verbatim>\<open>TypeError\<close>, nothing of the
  chain has run, and the bot and its history are unchanged.
\<close>

theorem C2_ask_question_raises: "ask_question self question h = (Inl TypeError, self, h)"
  by (simp add: ask_question_def conversational_rag_chain_stream_def)

subsection \<open>The history lookup\<close>

text \<open>
  C5. The history lookup does not depend on its argument: two lookups with any two
  arguments give the same reference, the same bot and the same heap; a second lookup,
  with any argument, returns the reference of the first and changes nothing; and the
  first lookup on a bot without history allocates a new, empty history and caches it.
\<close>

theorem C5_history_ignores_session_id:
  "get_session_history self a h = get_session_history self b h \<and>
   (case get_session_history self a h of
      (r, self1, h1) \<Rightarrow> get_session_history self1 b h1 = (r, self1, h1) \<and> history self1 = Some r) \<and>
   get_session_history (self\<lparr>history := None\<rparr>) a h =
     (length h, self\<lparr>history := Some (length h)\<rparr>, h @ [[]])"
  by (simp add: get_session_history_def ChatMessageHistory_def split: option.splits)

subsection \<open>Remote operations before initialisation\<close>

lemma buildLocal_globals:
  "buildLocalVectorStoreFor ident w = (r, v) \<Longrightarrow>
   g_bucket v = g_bucket w \<and> g_S3 v = g_S3 w \<and> trace v = trace w"
  by (auto simp: buildLocalVectorStoreFor_def buildVectorStoreFromDocuments_def
      split: sum.splits)

text \<open>
  C8. When \<^verbatim>\<open>__bucket\<close> or \<^verbatim>\<open>__S3\<close> is \<^verbatim>\<open>None\<close>, each remote operation (exists, get,
  delete, the upload of one file, the upload of the index) raises the configuration
  error and leaves the world as it was: no remote call is attempted and no delay is made.
  A build that gets as far as the upload raises it too, with the trace as it was.
\<close>

theorem C8_not_initialised_fails_fast:
  assumes "g_bucket w = None \<or> \<not> g_S3 w"
  shows "checkS3VectorStoreFor ident w = (Inl NotInitialized, w) \<and>
         getS3VectorStoreFor ident w = (Inl NotInitialized, w) \<and>
         deleteS3VectorstoreFor ident w = (Inl NotInitialized, w) \<and>
         upload_file_for ident file_name father w = (Inl NotInitialized, w) \<and>
         uploadS3VectorstoreFor (Suc n) ident path father w = Some (Inl NotInitialized, w) \<and>
         (case buildLocalVectorStoreFor ident w of
            (Inl e, v) \<Rightarrow> buildS3VectorStoreFor (Suc n) ident w = Some (Inl e, v)
          | (Inr h, v) \<Rightarrow>
              buildS3VectorStoreFor (Suc n) ident w = Some (Inl NotInitialized, v) \<and>
              trace v = trace w)"
proof -
  have init: "\<And>v. g_bucket v = g_bucket w \<Longrightarrow> g_S3 v = g_S3 w \<Longrightarrow>
      checkS3init v = Inl NotInitialized"
    using assms by (auto simp: checkS3init_def)
  have del: "\<And>v. g_bucket v = g_bucket w \<Longrightarrow> g_S3 v = g_S3 w \<Longrightarrow>
      deleteS3VectorstoreFor ident v = (Inl NotInitialized, v)"
    by (simp add: deleteS3VectorstoreFor_def init)
  have down: "downloadS3VectorstoreFor ident w = (Inl NotInitialized, w)"
    by (simp add: downloadS3VectorstoreFor_def init)
  have build: "(case buildLocalVectorStoreFor ident w of
            (Inl e, v) \<Rightarrow> buildS3VectorStoreFor (Suc n) ident w = Some (Inl e, v)
          | (Inr h, v) \<Rightarrow>
              buildS3VectorStoreFor (Suc n) ident w = Some (Inl NotInitialized, v) \<and>
              trace v = trace w)"
  proof (cases "buildLocalVectorStoreFor ident w")
    case (Pair r v)
    from buildLocal_globals [OF Pair] del [of v]
    have "deleteS3VectorstoreFor ident v = (Inl NotInitialized, v)" "trace v = trace w"
      by simp_all
    then show ?thesis
      using Pair by (cases r) (simp_all add: buildS3VectorStoreFor_def)
  qed
  show ?thesis
    using build
    by (simp add: checkS3VectorStoreFor_def getS3VectorStoreFor_def upload_file_for_def
        init del down)
qed

theorem C8_not_initialised_witness:
  "(g_bucket uninitialised = None \<or> \<not> g_S3 uninitialised) \<and>
   checkS3VectorStoreFor ''p'' uninitialised = (Inl NotInitialized, uninitialised) \<and>
   getS3VectorStoreFor ''p'' uninitialised = (Inl NotInitialized, uninitialised) \<and>
   deleteS3VectorstoreFor ''p'' uninitialised = (Inl NotInitialized, uninitialised) \<and>
   upload_file_for ''p'' ''f'' None uninitialised = (Inl NotInitialized, uninitialised) \<and>
   uploadS3VectorstoreFor (Suc 0) ''p'' None None uninitialised
     = Some (Inl NotInitialized, uninitialised) \<and>
   buildS3VectorStoreFor (Suc 0) ''p'' uninitialised
     = Some (Inl NotInitialized, uninitialised\<lparr>vectorStore := [(''p'', Dir index_tree)]\<rparr>)"
proof -
  have h: "g_bucket uninitialised = None \<or> \<not> g_S3 uninitialised"
    by (simp add: uninitialised_def)
  have b: "buildLocalVectorStoreFor ''p'' uninitialised
           = (Inr (Chroma ''p''), uninitialised\<lparr>vectorStore := [(''p'', Dir index_tree)]\<rparr>)"
    by (simp add: run_defs uninitialised_def world0_def)
  show ?thesis
    using h C8_not_initialised_fails_fast [OF h, of "''p''" "''f''" None 0 None]
    by (simp add: b)
qed

subsection \<open>The retry loops\<close>










subsection \<open>Products that were never built\<close>

lemma remote_keys_trace [simp]: "remote_keys ident (w\<lparr>trace := t\<rparr>) = remote_keys ident w"
  by (simp add: remote_keys_def split: option.splits)

lemma remote_keys_vectorStore [simp]:
  "remote_keys ident (w\<lparr>vectorStore := v\<rparr>) = remote_keys ident w"
  by (simp add: remote_keys_def split: option.splits)






text \<open>
  The prefix the code lists is \<^verbatim>\<open>vectorstores/{id}\<close>, without a closing slash: the
  objects of product \<^verbatim>\<open>pq\<close> are under the prefix of product \<^verbatim>\<open>p\<close>. With only
  \<^verbatim>\<open>pq\<close> built, the existence check for \<^verbatim>\<open>p\<close> is \<^verbatim>\<open>True\<close> and fetching \<^verbatim>\<open>p\<close> returns
  a store, made of the files of \<^verbatim>\<open>pq\<close>.
\<close>

lemma prefix_collision:
  "remote_keys ''p'' neighbour = [''vectorstores/pq/chroma.sqlite3''] \<and>
   fst (checkS3VectorStoreFor ''p'' neighbour) = Inr True \<and>
   fst (getS3VectorStoreFor ''p'' neighbour) = Inr (Some (Chroma ''p''))"
  by (simp add: run_defs remote_keys_def neighbour_def world0_def
      getS3VectorStoreFor_def downloadS3VectorstoreFor_def download_file_def)

subsection \<open>The document loader\<close>








subsection \<open>What an upload preserves\<close>

lemma config_simps [simp]:
  "config (w\<lparr>trace := t\<rparr>) = config w"
  "config (w\<lparr>remote := r\<rparr>) = config w"
  "config (w\<lparr>vectorStore := s\<rparr>) = config w"
  by (simp_all add: config_def)









subsection \<open>The upload returns\<close>













subsection \<open>A failing upload cleans up\<close>

text \<open>From here on paths are looked up through the lemmas above.\<close>

declare lookup_path.simps [simp del]





subsection \<open>Every build returns\<close>











subsection \<open>The local directory after a build\<close>




subsection \<open>Failed builds\<close>









end
